theory Spec2Isabelle
  imports Main "HOL-Library.Word"
begin

section \<open>The allocator of mmal.c as a state-passing model\<close>

text \<open>
  Pointers and \<open>size_t\<close> values are 64-bit words (an LP64 target), so every sum and
  difference wraps as the unsigned C arithmetic does. The two structures of the source
  are records; their footprints are \<open>sizeof(Header) = 24\<close> (three 8-byte fields) and
  \<open>sizeof(Arena) = 16\<close> (two 8-byte fields).

  Memory is a split heap: header objects and arena objects are kept in two maps keyed by
  their start address, and the bytes handed to the program are a third component. A load
  or a store through a pointer at which no object of the right type lives, and in
  particular through \<open>NULL\<close>, is the outcome \<open>Fault\<close>. Constructing a header
  (\<open>hdr_ctor\<close>) creates the object at the given address. The three components are
  kept apart, as the layout of the blocks inside an arena keeps them apart: header
  objects are told apart by their start address, and what a store to one header would
  do to the bytes of another header that overlaps it, or to program bytes, is not
  represented. A loop that walks a linked structure may not come back; such a function
  has an option result and \<open>None\<close> means that the call never returns.
\<close>

type_synonym addr = "64 word"
type_synonym size_t = "64 word"

record Header =
  h_next :: addr
  h_size :: size_t
  h_asize :: size_t

record Arena =
  a_next :: addr
  a_size :: size_t

record state =
  first_arena :: addr
  arenas :: "addr \<rightharpoonup> Arena"
  hdrs :: "addr \<rightharpoonup> Header"
  mem :: "addr \<Rightarrow> 8 word"

datatype 'a result = Fault | Ok 'a

definition NULL :: addr where
  "NULL = 0"

text \<open>The value \<open>mmap\<close> returns when it fails: \<open>(void * ) -1\<close>.\<close>

definition MAP_FAILED :: addr where
  "MAP_FAILED = - 1"

definition PAGE_SIZE :: size_t where
  "PAGE_SIZE = 128 * 1024"

definition sizeof_Header :: size_t where
  "sizeof_Header = 24"

definition sizeof_Arena :: size_t where
  "sizeof_Arena = 16"

text \<open>The allocator before its first use: \<open>first_arena = NULL\<close>, nothing mapped.\<close>

definition init_state :: state where
  "init_state = \<lparr>first_arena = NULL, arenas = Map.empty, hdrs = Map.empty, mem = (\<lambda>_. 0)\<rparr>"

subsection \<open>Loads, stores and sequencing\<close>

definition get_hdr :: "state \<Rightarrow> addr \<Rightarrow> Header option" where
  "get_hdr s p = (if p = NULL then None else hdrs s p)"

definition get_arena :: "state \<Rightarrow> addr \<Rightarrow> Arena option" where
  "get_arena s p = (if p = NULL then None else arenas s p)"

definition upd_hdr :: "addr \<Rightarrow> (Header \<Rightarrow> Header) \<Rightarrow> state \<Rightarrow> state result" where
  "upd_hdr p f s =
     (case get_hdr s p of
        None \<Rightarrow> Fault
      | Some h \<Rightarrow> Ok (s\<lparr>hdrs := (hdrs s)(p \<mapsto> f h)\<rparr>))"

definition upd_arena :: "addr \<Rightarrow> (Arena \<Rightarrow> Arena) \<Rightarrow> state \<Rightarrow> state result" where
  "upd_arena p f s =
     (case get_arena s p of
        None \<Rightarrow> Fault
      | Some a \<Rightarrow> Ok (s\<lparr>arenas := (arenas s)(p \<mapsto> f a)\<rparr>))"

text \<open>Run \<open>m\<close>; when it returns a value, go on with \<open>f\<close>; a fault or a call that never
  returns ends the computation.\<close>

definition and_then :: "'a result option \<Rightarrow> ('a \<Rightarrow> 'b result option) \<Rightarrow> 'b result option" where
  "and_then m f =
     (case m of
        None \<Rightarrow> None
      | Some Fault \<Rightarrow> Some Fault
      | Some (Ok x) \<Rightarrow> f x)"

subsection \<open>Arena manager\<close>

definition allign_page :: "size_t \<Rightarrow> size_t" where
  "allign_page sz =
     (if sz < PAGE_SIZE then PAGE_SIZE else ((sz div PAGE_SIZE) + 1) * PAGE_SIZE)"

text \<open>
  \<open>arena_alloc os req_size\<close>: \<open>os\<close> is the pointer the mapping call returns. The
  argument check of the source only prints a diagnostic, so it has no effect here. A
  mapping that failed is \<open>MAP_FAILED\<close>, where no memory is mapped: the store
  \<open>tmp->next = NULL\<close> faults there.
\<close>

definition arena_alloc :: "addr \<Rightarrow> size_t \<Rightarrow> state \<Rightarrow> (addr \<times> state) result" where
  "arena_alloc os req_size s =
     (let arena_size = allign_page req_size;
          tmp = os
      in if tmp = NULL then Ok (NULL, s)
         else if tmp = MAP_FAILED then Fault
         else Ok (tmp, s\<lparr>arenas := (arenas s)(tmp \<mapsto> \<lparr>a_next = NULL, a_size = arena_size\<rparr>)\<rparr>))"

partial_function (option) arena_last :: "state \<Rightarrow> addr \<Rightarrow> addr result option" where
  "arena_last s last_arena =
     (case get_arena s last_arena of
        None \<Rightarrow> Some Fault
      | Some ar \<Rightarrow>
          if a_next ar \<noteq> NULL then arena_last s (a_next ar) else Some (Ok last_arena))"

declare arena_last.simps [code]

definition arena_append :: "addr \<Rightarrow> state \<Rightarrow> state result option" where
  "arena_append a s =
     (if first_arena s = NULL then Some (Ok (s\<lparr>first_arena := a\<rparr>))
      else and_then (arena_last s (first_arena s))
             (\<lambda>last_arena. Some (upd_arena last_arena (\<lambda>ar. ar\<lparr>a_next := a\<rparr>) s)))"

subsection \<open>Block header operations\<close>

definition hdr_ctor :: "addr \<Rightarrow> size_t \<Rightarrow> state \<Rightarrow> state" where
  "hdr_ctor hdr sz s =
     (if hdr = NULL then s
      else s\<lparr>hdrs := (hdrs s)(hdr \<mapsto> \<lparr>h_next = NULL, h_size = sz, h_asize = 0\<rparr>)\<rparr>)"

definition hdr_should_split :: "state \<Rightarrow> addr \<Rightarrow> size_t \<Rightarrow> bool result" where
  "hdr_should_split s hdr sz =
     (if hdr = NULL then Ok False
      else case get_hdr s hdr of
             None \<Rightarrow> Fault
           | Some h \<Rightarrow>
               if h_asize h \<noteq> 0 then Ok False
               else if sz = 0 then Ok False
               else Ok (h_size h - sizeof_Header - sz > 0))"

definition hdr_split :: "addr \<Rightarrow> size_t \<Rightarrow> state \<Rightarrow> (addr \<times> state) result" where
  "hdr_split hdr req_size s =
     (if hdr = NULL then Ok (NULL, s)
      else case get_hdr s hdr of
             None \<Rightarrow> Fault
           | Some h \<Rightarrow>
               if req_size > h_size h then Ok (NULL, s)
               else
                 let new_hdr = hdr + sizeof_Header + req_size;
                     s1 = hdr_ctor new_hdr (h_size h - req_size - sizeof_Header) s
                 in (case upd_hdr hdr (\<lambda>x. x\<lparr>h_size := req_size\<rparr>) s1 of
                       Fault \<Rightarrow> Fault
                     | Ok s2 \<Rightarrow>
                         (case get_hdr s2 hdr of
                            None \<Rightarrow> Fault
                          | Some h2 \<Rightarrow>
                              (case upd_hdr new_hdr (\<lambda>x. x\<lparr>h_next := h_next h2\<rparr>) s2 of
                                 Fault \<Rightarrow> Fault
                               | Ok s3 \<Rightarrow>
                                   (case upd_hdr hdr (\<lambda>x. x\<lparr>h_next := new_hdr\<rparr>) s3 of
                                      Fault \<Rightarrow> Fault
                                    | Ok s4 \<Rightarrow> Ok (new_hdr, s4))))))"

text \<open>
  In the conditions \<open>a || b || c\<close> of the source each operand is evaluated only when
  the ones before it are false; the chains of \<open>if\<close> above and below keep that order, so
  that a header is loaded only where the source loads it.
\<close>

text \<open>The scan of the arena list inside \<open>hdr_can_merge\<close>: \<open>Ok False\<close> is its early
  \<open>return false\<close>, \<open>Ok True\<close> is falling out of the loop.\<close>

partial_function (option) arena_scan :: "state \<Rightarrow> addr \<Rightarrow> addr \<Rightarrow> bool result option" where
  "arena_scan s right last_arena =
     (case get_arena s last_arena of
        None \<Rightarrow> Some Fault
      | Some ar \<Rightarrow>
          if a_next ar \<noteq> NULL then
            (case get_hdr s right of
               None \<Rightarrow> Some Fault
             | Some r \<Rightarrow>
                 if h_next r \<noteq> last_arena + sizeof_Arena then Some (Ok False)
                 else arena_scan s right (a_next ar))
          else Some (Ok True))"

declare arena_scan.simps [code]

definition hdr_can_merge :: "state \<Rightarrow> addr \<Rightarrow> addr \<Rightarrow> bool result option" where
  "hdr_can_merge s left right =
     (if left = NULL \<or> right = NULL then Some (Ok False)
      else and_then (arena_scan s right (first_arena s))
             (\<lambda>passed.
                if \<not> passed then Some (Ok False)
                else case get_hdr s left of
                       None \<Rightarrow> Some Fault
                     | Some l \<Rightarrow>
                         if h_asize l \<noteq> 0 then Some (Ok False)
                         else (case get_hdr s right of
                                 None \<Rightarrow> Some Fault
                               | Some r \<Rightarrow>
                                   Some (Ok (h_asize r = 0 \<and> h_next l = right
                                             \<and> left \<noteq> right \<and> left < right)))))"

definition hdr_merge :: "addr \<Rightarrow> addr \<Rightarrow> state \<Rightarrow> state result" where
  "hdr_merge left right s =
     (if left = NULL \<or> right = NULL then Ok s
      else case get_hdr s left of
             None \<Rightarrow> Fault
           | Some l \<Rightarrow>
               if h_next l \<noteq> right then Ok s
               else if left = right then Ok s
               else (case get_hdr s right of
                       None \<Rightarrow> Fault
                     | Some r \<Rightarrow>
                         Ok (s\<lparr>hdrs := (hdrs s)(left \<mapsto>
                               l\<lparr>h_size := h_size l + (h_size r + sizeof_Header),
                                 h_next := h_next r\<rparr>)\<rparr>)))"


partial_function (option) first_fit_loop ::
  "state \<Rightarrow> addr \<Rightarrow> size_t \<Rightarrow> addr \<Rightarrow> addr result option" where
  "first_fit_loop s start sz appropriate_hdr =
     (case get_hdr s appropriate_hdr of
        None \<Rightarrow> Some Fault
      | Some h \<Rightarrow>
          if h_next h \<noteq> start then
            (if h_asize h = 0 \<and> h_size h \<ge> sz then Some (Ok appropriate_hdr)
             else first_fit_loop s start sz (h_next h))
          else if h_asize h = 0 \<and> h_size h \<ge> sz then Some (Ok appropriate_hdr)
          else Some (Ok NULL))"

declare first_fit_loop.simps [code]

definition first_fit :: "state \<Rightarrow> size_t \<Rightarrow> addr result option" where
  "first_fit s sz =
     (if sz \<le> 0 \<or> first_arena s = NULL then Some (Ok NULL)
      else first_fit_loop s (first_arena s + sizeof_Arena) sz (first_arena s + sizeof_Arena))"

partial_function (option) hdr_get_prev_loop :: "state \<Rightarrow> addr \<Rightarrow> addr \<Rightarrow> addr result option" where
  "hdr_get_prev_loop s hdr temp =
     (case get_hdr s temp of
        None \<Rightarrow> Some Fault
      | Some t \<Rightarrow>
          if h_next t \<noteq> hdr then hdr_get_prev_loop s hdr (h_next t) else Some (Ok temp))"

declare hdr_get_prev_loop.simps [code]

definition hdr_get_prev :: "state \<Rightarrow> addr \<Rightarrow> addr result option" where
  "hdr_get_prev s hdr =
     (if first_arena s = NULL \<or> hdr = NULL then Some (Ok hdr)
      else hdr_get_prev_loop s hdr hdr)"

subsection \<open>Allocator entry points\<close>

text \<open>The statement \<open>if(hdr_should_split(hdr, size)) hdr_split(hdr, size);\<close>, which the
  source repeats at each of its four uses.\<close>

definition split_unused :: "addr \<Rightarrow> size_t \<Rightarrow> state \<Rightarrow> state result" where
  "split_unused hdr sz s =
     (case hdr_should_split s hdr sz of
        Fault \<Rightarrow> Fault
      | Ok b \<Rightarrow>
          if b then (case hdr_split hdr sz s of Fault \<Rightarrow> Fault | Ok (new_hdr, s1) \<Rightarrow> Ok s1)
          else Ok s)"

text \<open>\<open>mmalloc os size\<close>: \<open>os\<close> is what the mapping call returns, should the call be
  made. The result is the returned pointer and the state after the call.\<close>

definition mmalloc :: "addr \<Rightarrow> size_t \<Rightarrow> state \<Rightarrow> (addr \<times> state) result option" where
  "mmalloc os sz s =
     (if sz \<le> 0 then Some (Ok (NULL, s))
      else and_then (first_fit s sz) (\<lambda>found.
        if found \<noteq> NULL then
          and_then (Some (split_unused found sz s)) (\<lambda>s1.
          and_then (Some (upd_hdr found (\<lambda>x. x\<lparr>h_asize := sz\<rparr>) s1)) (\<lambda>s2.
          Some (Ok (found + sizeof_Header, s2))))
        else
          and_then (Some (arena_alloc os (sz + sizeof_Arena + sizeof_Header) s)) (\<lambda>(new_arena, s1).
          and_then (arena_append new_arena s1) (\<lambda>s2.
          let free_hdr = new_arena + sizeof_Arena in
          case get_arena s2 new_arena of
            None \<Rightarrow> Some Fault
          | Some na \<Rightarrow>
              let s3 = hdr_ctor free_hdr (a_size na - sizeof_Arena - sizeof_Header) s2 in
              and_then (Some (upd_hdr free_hdr
                                (\<lambda>x. x\<lparr>h_next := first_arena s3 + sizeof_Arena\<rparr>) s3)) (\<lambda>s4.
              and_then (hdr_get_prev s4 (first_arena s4 + sizeof_Arena)) (\<lambda>prev.
              and_then (Some (upd_hdr prev (\<lambda>x. x\<lparr>h_next := free_hdr\<rparr>) s4)) (\<lambda>s5.
              and_then (Some (split_unused free_hdr sz s5)) (\<lambda>s6.
              and_then (Some (upd_hdr free_hdr (\<lambda>x. x\<lparr>h_asize := sz\<rparr>) s6)) (\<lambda>s7.
              Some (Ok (free_hdr + sizeof_Header, s7)))))))))))"

definition mfree :: "addr \<Rightarrow> state \<Rightarrow> state result option" where
  "mfree ptr s =
     (if ptr \<noteq> NULL then
        let free_hdr = ptr - sizeof_Header in
        and_then (Some (upd_hdr free_hdr (\<lambda>x. x\<lparr>h_asize := 0\<rparr>) s)) (\<lambda>s1.
        case get_hdr s1 free_hdr of
          None \<Rightarrow> Some Fault
        | Some h \<Rightarrow>
            and_then (hdr_can_merge s1 free_hdr (h_next h)) (\<lambda>c1.
            and_then (Some (if c1 then hdr_merge free_hdr (h_next h) s1 else Ok s1)) (\<lambda>s2.
            and_then (hdr_get_prev s2 free_hdr) (\<lambda>prev.
            and_then (hdr_can_merge s2 prev free_hdr) (\<lambda>c2.
            if c2 then
              and_then (hdr_get_prev s2 free_hdr) (\<lambda>prev2.
              Some (hdr_merge prev2 free_hdr s2))
            else Some (Ok s2))))))
      else Some (Ok s))"

text \<open>\<open>memcpy(dst, src, n)\<close> on the program's bytes: every byte of the destination range
  receives the byte of the source range at the same offset.\<close>

definition memcpy :: "addr \<Rightarrow> addr \<Rightarrow> size_t \<Rightarrow> state \<Rightarrow> state result" where
  "memcpy dst src n s =
     (if dst = NULL \<or> src = NULL then Fault
      else Ok (s\<lparr>mem := (\<lambda>a. if a - dst < n then mem s (src + (a - dst)) else mem s a)\<rparr>))"

text \<open>The test of the grow branch of \<open>mrealloc\<close>: the ring successor of \<open>used_hdr\<close> is
  free, large enough together with its header, and \<open>hdr_can_merge\<close> accepts the pair.\<close>

definition next_absorbs :: "state \<Rightarrow> addr \<Rightarrow> size_t \<Rightarrow> bool result option" where
  "next_absorbs s used_hdr sz =
     (case get_hdr s used_hdr of
        None \<Rightarrow> Some Fault
      | Some u \<Rightarrow>
          (case get_hdr s (h_next u) of
             None \<Rightarrow> Some Fault
           | Some nx \<Rightarrow>
               if h_asize nx = 0 \<and> h_size nx + sizeof_Header \<ge> sz - h_size u
               then hdr_can_merge s used_hdr (h_next u)
               else Some (Ok False)))"

definition mrealloc :: "addr \<Rightarrow> addr \<Rightarrow> size_t \<Rightarrow> state \<Rightarrow> (addr \<times> state) result option" where
  "mrealloc os ptr sz s =
     (if ptr = NULL then Some (Ok (NULL, s))
      else if sz = 0 then and_then (mfree ptr s) (\<lambda>s1. Some (Ok (NULL, s1)))
      else
        let used_hdr = ptr - sizeof_Header in
        case get_hdr s used_hdr of
          None \<Rightarrow> Some Fault
        | Some u \<Rightarrow>
            if sz < h_size u then
              and_then (Some (upd_hdr used_hdr (\<lambda>x. x\<lparr>h_asize := 0\<rparr>) s)) (\<lambda>s1.
              and_then (Some (split_unused used_hdr sz s1)) (\<lambda>s2.
              and_then (Some (upd_hdr used_hdr (\<lambda>x. x\<lparr>h_asize := sz\<rparr>) s2)) (\<lambda>s3.
              Some (Ok (ptr, s3)))))
            else if sz = h_size u then Some (Ok (ptr, s))
            else if h_size u \<ge> sz then
              and_then (Some (upd_hdr used_hdr (\<lambda>x. x\<lparr>h_asize := sz\<rparr>) s)) (\<lambda>s1.
              Some (Ok (ptr, s1)))
            else
              let hdr_asize = h_asize u in
              and_then (Some (upd_hdr used_hdr (\<lambda>x. x\<lparr>h_asize := 0\<rparr>) s)) (\<lambda>s1.
              and_then (next_absorbs s1 used_hdr sz) (\<lambda>in_place.
              if in_place then
                case get_hdr s1 used_hdr of
                  None \<Rightarrow> Some Fault
                | Some u1 \<Rightarrow>
                    and_then (Some (hdr_merge used_hdr (h_next u1) s1)) (\<lambda>s2.
                    and_then (Some (split_unused used_hdr sz s2)) (\<lambda>s3.
                    and_then (Some (upd_hdr used_hdr (\<lambda>x. x\<lparr>h_asize := sz\<rparr>) s3)) (\<lambda>s4.
                    Some (Ok (ptr, s4)))))
              else
                and_then (mmalloc os sz s1) (\<lambda>(new_ptr, s2).
                and_then (Some (memcpy new_ptr (used_hdr + sizeof_Header) hdr_asize s2)) (\<lambda>s3.
                and_then (mfree (used_hdr + sizeof_Header) s3) (\<lambda>s4.
                Some (Ok (new_ptr, s4))))))))"

section \<open>States reached through the entry points\<close>

text \<open>
  A script is a sequence of calls of the public entry points. \<open>Malloc os n\<close> is
  \<open>mmalloc(n)\<close> with \<open>os\<close> the answer of the mapping call; \<open>run\<close> gives the pointers
  the allocations returned, in order, and the final state, or \<open>None\<close> when a call
  faulted or did not return.
\<close>

datatype call = Malloc addr size_t | Free addr

fun run :: "call list \<Rightarrow> state \<Rightarrow> (addr list \<times> state) option" where
  "run [] s = Some ([], s)"
| "run (Malloc os n # cs) s =
     (case mmalloc os n s of
        Some (Ok (p, s')) \<Rightarrow> map_option (\<lambda>(ps, t). (p # ps, t)) (run cs s')
      | _ \<Rightarrow> None)"
| "run (Free p # cs) s =
     (case mfree p s of
        Some (Ok s') \<Rightarrow> run cs s'
      | _ \<Rightarrow> None)"

text \<open>The allocator after one call \<open>mmalloc(100)\<close> whose mapping call returned the address
  \<open>0x10000\<close>: one arena of one page, the block at \<open>0x10010\<close> in use and the rest of
  the page free behind it. The pointer returned is \<open>0x10028\<close>.\<close>

definition after_alloc :: state where
  "after_alloc =
     (case mmalloc 0x10000 100 init_state of
        Some (Ok (p, s)) \<Rightarrow> s
      | _ \<Rightarrow> init_state)"




section \<open>The ring of blocks\<close>




section \<open>Auxiliary facts\<close>

subsection \<open>Only \<open>memcpy\<close> writes program bytes\<close>

















subsection \<open>The relocation branch of \<open>mrealloc\<close>\<close>


subsection \<open>The scan of \<open>first_fit\<close> and the hit branch of \<open>mmalloc\<close>\<close>









section \<open>Degenerate arguments\<close>

text \<open>
  Claim C10. \<open>mrealloc(NULL, 0)\<close> returns \<open>NULL\<close> and leaves the whole allocator state as
  it was: the test of the pointer comes first, so the size-zero branch, which frees, is
  never reached with a null pointer.
\<close>

theorem mrealloc_null_zero: "mrealloc os NULL 0 s = Some (Ok (NULL, s))"
  by (simp add: mrealloc_def)



section \<open>The arena manager\<close>

text \<open>
  Claim C5 (the code differs). A size that is already a multiple of the page unit is not
  kept: \<open>allign_page(131072)\<close> is two page units, since the source adds one unit to the
  quotient whenever the size is not below one unit.
\<close>

theorem allign_page_exact_multiple: "allign_page 131072 = 262144"
  by (simp add: allign_page_def PAGE_SIZE_def)

text \<open>
  Claim C4 (the code differs). A request that does not exceed
  \<open>sizeof(Arena) + sizeof(Header) = 40\<close> is only reported: the mapping call is made all
  the same and its arena, one page long, is returned. Such a request reaches
  \<open>arena_alloc\<close> from \<open>mmalloc(2^64 - 40)\<close>, whose sum \<open>size + 40\<close> wraps to 0.
\<close>

theorem arena_alloc_small_request:
  "(case arena_alloc 0x10000 0 init_state of
      Fault \<Rightarrow> False
    | Ok (p, s) \<Rightarrow>
        p = 0x10000 \<and> p \<noteq> NULL
        \<and> arenas s p = Some \<lparr>a_next = NULL, a_size = 131072\<rparr>)
   \<and> (0 :: size_t) \<le> sizeof_Arena + sizeof_Header
   \<and> (2 ^ 64 - 40 :: size_t) + sizeof_Arena + sizeof_Header = 0"
  by (simp add: arena_alloc_def allign_page_def PAGE_SIZE_def NULL_def MAP_FAILED_def
      init_state_def sizeof_Arena_def sizeof_Header_def)

text \<open>
  Claim C1 (the code differs). With no block at all and a mapping call that fails,
  \<open>mmalloc(1)\<close> does not return \<open>NULL\<close>: it faults. If the failure comes back as
  \<open>MAP_FAILED\<close>, as \<open>mmap\<close> reports it, \<open>arena_alloc\<close> stores through that pointer;
  if it came back as \<open>NULL\<close>, \<open>mmalloc\<close> goes on after its diagnostic and loads
  \<open>new_arena->size\<close>. The same happens on the relocation path of \<open>mrealloc\<close>: after
  \<open>mmalloc(100)\<close>, growing the block to 200000 bytes finds no block that fits, calls
  \<open>mmalloc\<close> and faults with it.
\<close>

theorem mmalloc_mapping_failure:
  "mmalloc MAP_FAILED 1 init_state = Some Fault
   \<and> mmalloc NULL 1 init_state = Some Fault
   \<and> hdrs after_alloc 0x10010 = Some \<lparr>h_next = 0x1008C, h_size = 100, h_asize = 100\<rparr>
   \<and> hdrs after_alloc 0x1008C = Some \<lparr>h_next = 0x10010, h_size = 130908, h_asize = 0\<rparr>
   \<and> first_fit after_alloc 200000 = Some (Ok NULL)
   \<and> mmalloc MAP_FAILED 200000 after_alloc = Some Fault
   \<and> mmalloc NULL 200000 after_alloc = Some Fault
   \<and> mrealloc MAP_FAILED 0x10028 200000 after_alloc = Some Fault
   \<and> mrealloc NULL 0x10028 200000 after_alloc = Some Fault"
  by code_simp

section \<open>Splitting\<close>

text \<open>
  Claim C2 (the code differs). The difference \<open>hdr->size - sizeof(Header) - size\<close> is
  computed in \<open>size_t\<close>, so it is positive whenever it is not zero. After
  \<open>mmalloc(10)\<close>, \<open>mmalloc(20)\<close> and \<open>mfree\<close> of the first block, the free block at
  \<open>0x10010\<close> has 10 usable bytes and \<open>hdr_should_split\<close> accepts it for a request of 5,
  although \<open>10 - 24 - 5\<close> is negative. \<open>mmalloc(5)\<close> then splits it: the remainder gets
  a header at \<open>0x1002D\<close> with size \<open>2^64 - 19\<close>, on the 5 bytes that are left before
  the header of the next block at \<open>0x10032\<close>, so that its 24 bytes run into that header.
\<close>

theorem hdr_should_split_wraps:
  "(case run [Malloc 0x10000 10, Malloc 0x10000 20, Free 0x10028] init_state of
      None \<Rightarrow> False
    | Some (ps, s) \<Rightarrow>
        ps = [0x10028, 0x1004A]
        \<and> hdrs s 0x10010 = Some \<lparr>h_next = 0x10032, h_size = 10, h_asize = 0\<rparr>
        \<and> hdr_should_split s 0x10010 5 = Ok True
        \<and> \<not> 0 < uint (10 :: size_t) - uint sizeof_Header - uint (5 :: size_t)
        \<and> (case mmalloc 0x40000 5 s of
              Some (Ok (p, s')) \<Rightarrow>
                p = 0x10028
                \<and> hdrs s' 0x10010 = Some \<lparr>h_next = 0x1002D, h_size = 5, h_asize = 5\<rparr>
                \<and> hdrs s' 0x1002D
                    = Some \<lparr>h_next = 0x10032, h_size = 2 ^ 64 - 19, h_asize = 0\<rparr>
                \<and> (0x10032 :: addr) < 0x1002D + sizeof_Header
            | _ \<Rightarrow> False))"
  by code_simp

section \<open>Coalescing\<close>

text \<open>
  Claim C3 (the code differs). With two arenas the scan of \<open>hdr_can_merge\<close> compares
  \<open>right->next\<close> with the first header of the first arena, so it passes only when
  \<open>right\<close> is the last block of the ring. First conjunct: three blocks of 100 bytes in
  the arena at \<open>0x10000\<close>, a second arena at \<open>0x40000\<close>, the third and the second block
  freed. The blocks at \<open>0x1008C\<close> and \<open>0x10108\<close> are both free, ring-adjacent, distinct,
  in address order and in the same arena, and \<open>hdr_can_merge\<close> answers false. Second
  conjunct: the free tail of the first arena at \<open>0x1008C\<close> and the only block of the
  second arena at \<open>0x40010\<close> lie in different arenas, and \<open>mfree\<close> of the latter merges
  them: the scan lets that pair through.
\<close>

theorem hdr_can_merge_two_arenas:
  "(case run [Malloc 0x10000 100, Malloc 0x10000 100, Malloc 0x10000 100,
              Malloc 0x40000 200000, Free 0x10120, Free 0x100A4] init_state of
      None \<Rightarrow> False
    | Some (ps, s) \<Rightarrow>
        ps = [0x10028, 0x100A4, 0x10120, 0x40028]
        \<and> arenas s 0x10000 = Some \<lparr>a_next = 0x40000, a_size = 131072\<rparr>
        \<and> hdrs s 0x1008C = Some \<lparr>h_next = 0x10108, h_size = 100, h_asize = 0\<rparr>
        \<and> hdrs s 0x10108 = Some \<lparr>h_next = 0x10184, h_size = 100, h_asize = 0\<rparr>
        \<and> (0x1008C :: addr) < 0x10108
        \<and> hdr_can_merge s 0x1008C 0x10108 = Some (Ok False))
   \<and> (case run [Malloc 0x10000 100, Malloc 0x40000 262080] init_state of
         None \<Rightarrow> False
       | Some (ps, s) \<Rightarrow>
           ps = [0x10028, 0x40028]
           \<and> arenas s 0x10000 = Some \<lparr>a_next = 0x40000, a_size = 131072\<rparr>
           \<and> hdrs s 0x1008C = Some \<lparr>h_next = 0x40010, h_size = 130908, h_asize = 0\<rparr>
           \<and> hdrs s 0x40010 = Some \<lparr>h_next = 0x10010, h_size = 262104, h_asize = 262080\<rparr>
           \<and> (case mfree 0x40028 s of
                 Some (Ok s') \<Rightarrow>
                   hdrs s' 0x1008C
                     = Some \<lparr>h_next = 0x10010, h_size = 130908 + 262104 + 24, h_asize = 0\<rparr>
               | _ \<Rightarrow> False))"
  by code_simp

text \<open>
  Claim C6 (the code differs, by the scan of claim C3). Three blocks of 100 bytes in the
  first arena and a second arena behind them; the first and the third block are freed,
  then the second, which now lies between two free neighbours. None of the three
  \<open>mfree\<close> calls merges anything: the three headers keep their size of 100, where the
  claim promises one free block of \<open>100 + 100 + 100 + 2 * 24\<close> bytes. With the first arena
  alone (second conjunct) the same three calls do coalesce, successor first: the block at
  \<open>0x10010\<close> ends with the whole page.
\<close>

theorem mfree_between_free_neighbours:
  "(case run [Malloc 0x10000 100, Malloc 0x10000 100, Malloc 0x10000 100,
              Malloc 0x40000 200000, Free 0x10028, Free 0x10120, Free 0x100A4] init_state of
      None \<Rightarrow> False
    | Some (ps, s) \<Rightarrow>
        ps = [0x10028, 0x100A4, 0x10120, 0x40028]
        \<and> hdrs s 0x10010 = Some \<lparr>h_next = 0x1008C, h_size = 100, h_asize = 0\<rparr>
        \<and> hdrs s 0x1008C = Some \<lparr>h_next = 0x10108, h_size = 100, h_asize = 0\<rparr>
        \<and> hdrs s 0x10108 = Some \<lparr>h_next = 0x10184, h_size = 100, h_asize = 0\<rparr>)
   \<and> (case run [Malloc 0x10000 100, Malloc 0x10000 100, Malloc 0x10000 100,
                 Free 0x10028, Free 0x10120, Free 0x100A4] init_state of
         None \<Rightarrow> False
       | Some (ps, s) \<Rightarrow>
           ps = [0x10028, 0x100A4, 0x10120]
           \<and> hdrs s 0x10010 = Some \<lparr>h_next = 0x10010, h_size = 131032, h_asize = 0\<rparr>)"
  by code_simp

section \<open>First fit\<close>





section \<open>Reallocation\<close>



end
